theory Spec2Isabelle
  imports Complex_Main
begin

section \<open>Heatmap and correlation display levels (analytics-viz.js)\<close>

text \<open>
  JavaScript numbers are modelled as reals: the comparisons \<open>===\<close>, \<open><=\<close>, \<open>>=\<close> and \<open>>\<close>
  between finite numbers are exact, so the branch taken depends on the mathematical value
  only. \<open>NaN\<close> and the infinities are outside this model.

  \<^verbatim>\<open>
  function getHeatmapLevel(percentage) {
      if (percentage === 0) return 0;
      if (percentage <= 25) return 1;
      if (percentage <= 50) return 2;
      if (percentage <= 75) return 3;
      return 4;
  }
  \<close>
\<close>

definition getHeatmapLevel :: "real \<Rightarrow> nat" where
  "getHeatmapLevel percentage =
     (if percentage = 0 then 0
      else if percentage \<le> 25 then 1
      else if percentage \<le> 50 then 2
      else if percentage \<le> 75 then 3
      else 4)"

text \<open>
  \<^verbatim>\<open>
  function getCorrelationLevel(correlation) {
      if (correlation >= 0.7) return 4;
      if (correlation >= 0.5) return 3;
      if (correlation >= 0.3) return 2;
      if (correlation > 0) return 1;
      return 0;
  }
  \<close>
\<close>

definition getCorrelationLevel :: "real \<Rightarrow> nat" where
  "getCorrelationLevel correlation =
     (if correlation \<ge> 7 / 10 then 4
      else if correlation \<ge> 5 / 10 then 3
      else if correlation \<ge> 3 / 10 then 2
      else if correlation > 0 then 1
      else 0)"

section \<open>Theme management (Theme object)\<close>

text \<open>
  The part of the browser that \<open>Theme\<close> reads and writes: the \<open>data-theme\<close> attribute of the
  document element (\<open>None\<close> when the attribute is absent, as \<open>getAttribute\<close> returns
  \<open>null\<close>), \<open>localStorage\<close>, the class list of the body, the requests sent through
  \<open>API.put\<close> and the timers set with \<open>setTimeout\<close>.
\<close>

datatype timer_action = RemoveBodyClass string

record browser =
  data_theme :: "string option"
  localStorage :: "string \<rightharpoonup> string"
  body_classes :: "string set"
  api_puts :: "(string \<times> string) list"
  timers :: "(nat \<times> timer_action) list"

definition storageKey :: string where
  "storageKey = ''lifesync-theme''"

text \<open>
  \<^verbatim>\<open>
  apply(theme) {
      document.documentElement.setAttribute('data-theme', theme);
      localStorage.setItem(this.storageKey, theme);
      const user = localStorage.getItem('user');
      if (user) {
          API.put('/api/auth/preferences', { theme }).catch(() => {});
      }
  }
  \<close>
  A string is truthy when it is not empty. The rejection of the request is swallowed by
  \<open>catch\<close>, so the request is only recorded.
\<close>

definition Theme_apply :: "string \<Rightarrow> browser \<Rightarrow> browser" where
  "Theme_apply theme s =
     (let s1 = s\<lparr>data_theme := Some theme\<rparr>;
          s2 = s1\<lparr>localStorage := (localStorage s1)(storageKey \<mapsto> theme)\<rparr>
      in case localStorage s2 ''user'' of
           None \<Rightarrow> s2
         | Some user \<Rightarrow>
             if user \<noteq> [] then s2\<lparr>api_puts := api_puts s2 @ [(''/api/auth/preferences'', theme)]\<rparr>
             else s2)"

text \<open>
  \<^verbatim>\<open>
  get() {
      return document.documentElement.getAttribute('data-theme') || 'dark';
  }
  \<close>
\<close>

definition Theme_get :: "browser \<Rightarrow> string" where
  "Theme_get s =
     (case data_theme s of
        None \<Rightarrow> ''dark''
      | Some t \<Rightarrow> if t \<noteq> [] then t else ''dark'')"

text \<open>
  \<^verbatim>\<open>
  toggle() {
      const current = document.documentElement.getAttribute('data-theme') || 'dark';
      const newTheme = current === 'dark' ? 'light' : 'dark';
      document.body.classList.add('theme-transitioning');
      this.apply(newTheme);
      setTimeout(() => document.body.classList.remove('theme-transitioning'), 300);
  }
  \<close>
\<close>

definition Theme_toggle :: "browser \<Rightarrow> browser" where
  "Theme_toggle s =
     (let current = (case data_theme s of
                       None \<Rightarrow> ''dark''
                     | Some t \<Rightarrow> if t \<noteq> [] then t else ''dark'');
          newTheme = (if current = ''dark'' then ''light'' else ''dark'');
          s1 = s\<lparr>body_classes := insert ''theme-transitioning'' (body_classes s)\<rparr>;
          s2 = Theme_apply newTheme s1
      in s2\<lparr>timers := timers s2 @ [(300, RemoveBodyClass ''theme-transitioning'')]\<rparr>)"

text \<open>
  \<^verbatim>\<open>
  init() {
      const saved = localStorage.getItem(this.storageKey);
      const theme = saved || 'dark';
      this.apply(theme);
  }
  \<close>
\<close>

definition Theme_init :: "browser \<Rightarrow> browser" where
  "Theme_init s =
     (let theme = (case localStorage s storageKey of
                     None \<Rightarrow> ''dark''
                   | Some saved \<Rightarrow> if saved \<noteq> [] then saved else ''dark'')
      in Theme_apply theme s)"

text \<open>
  Browser states: one with the light theme set, and a fresh one without the attribute; in
  both nothing is stored and nobody is logged in.
\<close>

definition light_browser :: browser where
  "light_browser =
     \<lparr>data_theme = Some ''light'', localStorage = Map.empty, body_classes = {},
      api_puts = [], timers = []\<rparr>"

definition fresh_browser :: browser where
  "fresh_browser =
     \<lparr>data_theme = None, localStorage = Map.empty, body_classes = {},
      api_puts = [], timers = []\<rparr>"

section \<open>API communication layer (API object)\<close>

text \<open>
  A parsed JSON value. An object is the list of its members in the order of the text; a later
  member with the same name replaces an earlier one, as \<open>JSON.parse\<close> does. The value
  \<open>undefined\<close> of JavaScript, which reading an absent property gives, is \<open>None\<close> in
  \<open>json option\<close>.
\<close>

datatype json =
    JNull
  | JBool bool
  | JNum real
  | JStr string
  | JArr "json list"
  | JObj "(string \<times> json) list"

datatype js_error =
    NetworkError
  | SyntaxError
  | TypeError
  | Error json

text \<open>
  Reading a property of a parsed value: a \<open>TypeError\<close> on \<open>null\<close>, the member's value on an
  object, and \<open>undefined\<close> where the member is absent. The names read here (\<open>success\<close>,
  \<open>message\<close>) are not properties of numbers, booleans, strings or arrays.
\<close>

fun get_property :: "json \<Rightarrow> string \<Rightarrow> js_error + json option" where
  "get_property JNull name = Inl TypeError"
| "get_property (JObj members) name = Inr (map_of (rev members) name)"
| "get_property v name = Inr None"

fun truthy :: "json option \<Rightarrow> bool" where
  "truthy None = False"
| "truthy (Some JNull) = False"
| "truthy (Some (JBool b)) = b"
| "truthy (Some (JNum n)) = (n \<noteq> 0)"
| "truthy (Some (JStr s)) = (s \<noteq> [])"
| "truthy (Some (JArr xs)) = True"
| "truthy (Some (JObj members)) = True"

text \<open>\<open>String.prototype.indexOf\<close>: the position of the first occurrence, or \<open>-1\<close>.\<close>

fun startsWith :: "string \<Rightarrow> string \<Rightarrow> bool" where
  "startsWith s [] = True"
| "startsWith [] (p # ps) = False"
| "startsWith (c # cs) (p # ps) = (c = p \<and> startsWith cs ps)"

fun indexOf_from :: "nat \<Rightarrow> string \<Rightarrow> string \<Rightarrow> int" where
  "indexOf_from i [] pat = (if pat = [] then int i else - 1)"
| "indexOf_from i (c # cs) pat =
     (if startsWith (c # cs) pat then int i else indexOf_from (Suc i) cs pat)"

definition indexOf :: "string \<Rightarrow> string \<Rightarrow> int" where
  "indexOf s pat = indexOf_from 0 s pat"

text \<open>
  What \<open>request\<close> reads of a response: \<open>response.ok\<close>, the \<open>content-type\<close> header
  (\<open>None\<close> when \<open>headers.get\<close> returns \<open>null\<close>), the body text, and the value that
  \<open>response.json()\<close> resolves to (\<open>None\<close> when the body is not valid JSON and the promise
  rejects with a \<open>SyntaxError\<close>). \<open>fetch\<close> itself either rejects or resolves to a response.
\<close>

record response =
  ok :: bool
  content_type :: "string option"
  body_text :: string
  body_json :: "json option"

datatype fetch_outcome = FetchRejected | FetchResolved response

text \<open>
  \<^verbatim>\<open>
  async request(endpoint, options = {}) {
      ...
      try {
          const response = await fetch(url, config);
          const contentType = response.headers.get("content-type");
          if (contentType && contentType.indexOf("application/json") !== -1) {
              const data = await response.json();
              if (!response.ok && !data.success) {
                  throw new Error(data.message || 'API request failed');
              }
              return data;
          } else {
              const text = await response.text();
              console.error('API Non-JSON Response:', text);
              throw new Error('Server error: Received non-JSON response');
          }
      } catch (error) {
          console.error('API Error:', error);
          throw error;
      }
  }
  \<close>
  The result is \<open>Inl\<close> of the error when the promise rejects and \<open>Inr\<close> of the data when it
  resolves. The \<open>catch\<close> block rethrows every error unchanged. The message of the error is
  kept as the JSON value it is built from; writing to the console is not modelled.
\<close>

definition is_json_content :: "string option \<Rightarrow> bool" where
  "is_json_content contentType =
     (case contentType of
        None \<Rightarrow> False
      | Some ct \<Rightarrow> ct \<noteq> [] \<and> indexOf ct ''application/json'' \<noteq> - 1)"

definition API_request :: "fetch_outcome \<Rightarrow> js_error + json" where
  "API_request outcome =
     (case outcome of
        FetchRejected \<Rightarrow> Inl NetworkError
      | FetchResolved response \<Rightarrow>
          if is_json_content (content_type response) then
            (case body_json response of
               None \<Rightarrow> Inl SyntaxError
             | Some data \<Rightarrow>
                 if ok response then Inr data
                 else
                   (case get_property data ''success'' of
                      Inl e \<Rightarrow> Inl e
                    | Inr success \<Rightarrow>
                        if \<not> truthy success then
                          (case get_property data ''message'' of
                             Inl e \<Rightarrow> Inl e
                           | Inr message \<Rightarrow>
                               (case message of
                                  None \<Rightarrow> Inl (Error (JStr ''API request failed''))
                                | Some m \<Rightarrow>
                                    if truthy message then Inl (Error m)
                                    else Inl (Error (JStr ''API request failed''))))
                        else Inr data))
          else Inl (Error (JStr ''Server error: Received non-JSON response'')))"

text \<open>
  The claim speaks of a body lacking \<open>success\<close>: the body is valid JSON whose \<open>success\<close>
  property is truthy, or it is not.
\<close>

definition body_has_success :: "response \<Rightarrow> bool" where
  "body_has_success response =
     (case body_json response of
        None \<Rightarrow> False
      | Some data \<Rightarrow>
          (case get_property data ''success'' of
             Inl e \<Rightarrow> False
           | Inr success \<Rightarrow> truthy success))"

text \<open>Example responses: an HTML error page, and a JSON error body without \<open>success\<close>.\<close>

definition html_500 :: response where
  "html_500 =
     \<lparr>ok = False, content_type = Some ''text/html; charset=utf-8'',
      body_text = ''<h1>Internal Server Error</h1>'', body_json = None\<rparr>"

definition json_500 :: response where
  "json_500 =
     \<lparr>ok = False, content_type = Some ''application/json'',
      body_text = ''{\"message\": \"db down\"}'',
      body_json = Some (JObj [(''message'', JStr ''db down'')])\<rparr>"

section \<open>Correlation list view (analytics-viz.js)\<close>

text \<open>
  The response of \<open>/api/analytics/correlations\<close> as \<open>renderCorrelationMatrix\<close> reads it:
  \<open>result.success\<close>, \<open>result.correlations\<close> (entries with \<open>habit1\<close>, \<open>habit2\<close> and
  \<open>correlation\<close>), \<open>result.message\<close> and \<open>result.analysis_period\<close>.
\<close>

record correlation_entry =
  habit1 :: string
  habit2 :: string
  correlation :: real

record correlations_result =
  success :: bool
  correlations :: "correlation_entry list"
  message :: "string option"
  analysis_period :: int











section \<open>Period comparison\<close>

text \<open>
  A JavaScript number as the comparison view may receive it: a finite value, \<open>NaN\<close> or an
  infinity. \<open>x >= 0\<close> is false for \<open>NaN\<close>, and \<open>Math.abs\<close> keeps \<open>NaN\<close> and turns both
  infinities into the positive one.
\<close>

datatype jsnum = Finite real | NaN | PosInfinity | NegInfinity

fun is_finite :: "jsnum \<Rightarrow> bool" where
  "is_finite (Finite x) = True"
| "is_finite v = False"

fun ge_zero :: "jsnum \<Rightarrow> bool" where
  "ge_zero (Finite x) = (x \<ge> 0)"
| "ge_zero PosInfinity = True"
| "ge_zero v = False"

fun Math_abs :: "jsnum \<Rightarrow> jsnum" where
  "Math_abs (Finite x) = Finite \<bar>x\<bar>"
| "Math_abs NaN = NaN"
| "Math_abs PosInfinity = PosInfinity"
| "Math_abs NegInfinity = PosInfinity"

text \<open>
  The response of \<open>/api/analytics/comparison\<close>: \<open>result.success\<close>, the two periods with
  their counts, and \<open>result.comparison\<close> with the two changes.
\<close>

record period =
  month_name :: string
  period_year :: int
  habits_completed :: nat
  tasks_completed :: nat

record comparison =
  habits_change :: jsnum
  tasks_change :: jsnum

record comparison_result =
  cmp_success :: bool
  period1 :: period
  period2 :: period
  cmp_comparison :: comparison

text \<open>
  Modelled from the spec: the Period Comparator, which runs in the backend and is not among
  the sources. The spec gives \<open>percentage_change = (period2 - period1) / period1 * 100\<close>,
  with \<open>period1 = 0\<close> mapped to a sentinel; the sentinel taken here is the first one the
  spec names, a reported change of 0. The output has the two periods with their counts and
  the comparison with \<open>habits_change\<close> and \<open>tasks_change\<close>.
\<close>

definition percentage_change :: "nat \<Rightarrow> nat \<Rightarrow> real" where
  "percentage_change p1 p2 =
     (if p1 = 0 then 0 else (real p2 - real p1) / real p1 * 100)"

definition compare_periods :: "period \<Rightarrow> period \<Rightarrow> comparison_result" where
  "compare_periods p1 p2 =
     \<lparr>cmp_success = True, period1 = p1, period2 = p2,
      cmp_comparison =
        \<lparr>habits_change = Finite (percentage_change (habits_completed p1) (habits_completed p2)),
         tasks_change = Finite (percentage_change (tasks_completed p1) (tasks_completed p2))\<rparr>\<rparr>"

text \<open>
  The bar chart handed to Chart.js: per dataset the label (month name and year) and the two
  counts. Colours, scales and the legend are left out.
\<close>

record dataset =
  ds_month :: string
  ds_year :: int
  ds_data :: "nat list"

datatype arrow = Up | Down

text \<open>
  \<^verbatim>\<open>
  afterLabel: function(context) {
      if (context.datasetIndex === 0) {
          const change = context.dataIndex === 0 ? result.comparison.habits_change
                                                 : result.comparison.tasks_change;
          const icon = change >= 0 ? up : down;
          ...
          return `${icon} ${Math.abs(change)}% vs previous month`;
      }
      return '';
  }
  \<close>
  \<open>None\<close> stands for the empty string.
\<close>

definition afterLabel :: "comparison_result \<Rightarrow> nat \<Rightarrow> nat \<Rightarrow> (arrow \<times> jsnum) option" where
  "afterLabel result datasetIndex dataIndex =
     (if datasetIndex = 0 then
        (let change = (if dataIndex = 0 then habits_change (cmp_comparison result)
                       else tasks_change (cmp_comparison result));
             icon = (if ge_zero change then Up else Down)
         in Some (icon, Math_abs change))
      else None)"

text \<open>
  \<^verbatim>\<open>
  const habitsChange = result.comparison.habits_change;
  const tasksChange = result.comparison.tasks_change;
  changesContainer.innerHTML = `
      <div class="change-item ${habitsChange >= 0 ? 'positive' : 'negative'}">
          <span class="change-label">Habits</span>
          <span class="change-value">${habitsChange >= 0 ? up : down} ${Math.abs(habitsChange)}%</span>
      </div>
      <div class="change-item ${tasksChange >= 0 ? 'positive' : 'negative'}"> ... Tasks ...
  `;
  \<close>
\<close>

record change_item =
  change_class :: string
  change_label :: string
  change_arrow :: arrow
  change_value :: jsnum

definition render_change :: "string \<Rightarrow> jsnum \<Rightarrow> change_item" where
  "render_change label change =
     \<lparr>change_class = (if ge_zero change then ''positive'' else ''negative''),
      change_label = label,
      change_arrow = (if ge_zero change then Up else Down),
      change_value = Math_abs change\<rparr>"

text \<open>
  What \<open>renderComparisonChart\<close> leaves behind: nothing without the canvas or when the request
  rejects or reports no success; otherwise the chart, and the two change items when the
  element \<open>comparisonChanges\<close> exists.
\<close>

datatype comparison_view =
    CmpNoCanvas
  | CmpRejected js_error
  | CmpNotLoaded
  | CmpRendered "dataset list" "change_item list option"

definition renderComparisonChart ::
  "bool \<Rightarrow> bool \<Rightarrow> js_error + comparison_result \<Rightarrow> comparison_view" where
  "renderComparisonChart canvas changesContainer api =
     (if \<not> canvas then CmpNoCanvas
      else case api of
        Inl e \<Rightarrow> CmpRejected e
      | Inr result \<Rightarrow>
          if \<not> cmp_success result then CmpNotLoaded
          else
            (let p1 = period1 result; p2 = period2 result;
                 chart =
                   [\<lparr>ds_month = month_name p1, ds_year = period_year p1,
                     ds_data = [habits_completed p1, tasks_completed p1]\<rparr>,
                    \<lparr>ds_month = month_name p2, ds_year = period_year p2,
                     ds_data = [habits_completed p2, tasks_completed p2]\<rparr>]
             in if changesContainer then
                  (let habitsChange = habits_change (cmp_comparison result);
                       tasksChange = tasks_change (cmp_comparison result)
                   in CmpRendered chart
                        (Some [render_change ''Habits'' habitsChange,
                               render_change ''Tasks'' tasksChange]))
                else CmpRendered chart None))"

text \<open>The change values that a view displays.\<close>

fun displayed_changes :: "comparison_view \<Rightarrow> jsnum list" where
  "displayed_changes (CmpRendered chart (Some items)) = map change_value items"
| "displayed_changes v = []"

text \<open>Example periods: nothing completed in the first, ten habits and three tasks in the second.\<close>

definition idle_month :: period where
  "idle_month =
     \<lparr>month_name = ''March'', period_year = 2025, habits_completed = 0, tasks_completed = 0\<rparr>"

definition busy_month :: period where
  "busy_month =
     \<lparr>month_name = ''April'', period_year = 2025, habits_completed = 10, tasks_completed = 3\<rparr>"

section \<open>Streak and consistency calculator\<close>

text \<open>
  Modelled from the spec: the Streak/Consistency Calculator, which runs in the backend and is
  not among the sources. Dates are day numbers. The input is the sparse log of one habit (the
  dates on which it was completed), today's date and the start of the window (the habit's
  creation or the start of the lookback window). The elapsed days are the days of the window,
  from its start to today; there are none when the start lies after today.
\<close>

record habit_log =
  log_today :: int
  window_start :: int
  logged :: "int list"

definition window_days :: "habit_log \<Rightarrow> int list" where
  "window_days h = [window_start h..log_today h]"

definition elapsed_days :: "habit_log \<Rightarrow> nat" where
  "elapsed_days h = length (window_days h)"

definition present_days :: "habit_log \<Rightarrow> nat" where
  "present_days h = length (filter (\<lambda>d. d \<in> set (logged h)) (window_days h))"

text \<open>
  Modelled from the spec: completion rate = present-day-count / elapsed-days * 100, rounded
  to a whole percent; with zero elapsed days the rate is 0.
\<close>

definition completion_rate :: "habit_log \<Rightarrow> int" where
  "completion_rate h =
     (if elapsed_days h = 0 then 0
      else round (real (present_days h) / real (elapsed_days h) * 100))"

text \<open>
  Modelled from the spec: the current streak is the count of consecutive present dates,
  scanning backwards from today, or from yesterday when today is not logged; the scan stays
  inside the window.
\<close>

fun consecutive_back :: "int list \<Rightarrow> int \<Rightarrow> nat \<Rightarrow> nat" where
  "consecutive_back ds d 0 = 0"
| "consecutive_back ds d (Suc n) =
     (if d \<in> set ds then Suc (consecutive_back ds (d - 1) n) else 0)"

definition current_streak :: "habit_log \<Rightarrow> nat" where
  "current_streak h =
     (if log_today h \<in> set (logged h)
      then consecutive_back (logged h) (log_today h) (elapsed_days h)
      else consecutive_back (logged h) (log_today h - 1) (elapsed_days h - 1))"

text \<open>
  Modelled from the spec: the best streak is the longest run of consecutive present dates in
  the window.
\<close>

fun longest_run :: "bool list \<Rightarrow> nat \<Rightarrow> nat \<Rightarrow> nat" where
  "longest_run [] run best = best"
| "longest_run (b # bs) run best =
     (if b then longest_run bs (Suc run) (max best (Suc run)) else longest_run bs 0 best)"

definition best_streak :: "habit_log \<Rightarrow> nat" where
  "best_streak h = longest_run (map (\<lambda>d. d \<in> set (logged h)) (window_days h)) 0 0"

text \<open>
  Example logs: a habit never completed over 30 days, a habit whose window is empty, and a
  habit completed only before the window.
\<close>

definition never_done :: habit_log where
  "never_done = \<lparr>log_today = 20000, window_start = 19971, logged = []\<rparr>"

definition no_days_yet :: habit_log where
  "no_days_yet = \<lparr>log_today = 20000, window_start = 20001, logged = [20000]\<rparr>"

definition logged_earlier :: habit_log where
  "logged_earlier = \<lparr>log_today = 20000, window_start = 19994, logged = [19990, 19991]\<rparr>"

section \<open>Correlation engine\<close>

text \<open>
  Modelled from the spec: the Correlation Engine, which runs in the backend and is not among
  the sources. Each habit has a vector of booleans over the dates of the window (true when
  the habit was completed that date); the vectors are read as 0 and 1. The Pearson
  coefficient of two vectors is their covariance divided by the product of their standard
  deviations; with a vector of zero variance it is reported as 0. It is unavailable when the
  vectors differ in length or cover fewer than the minimum of 7 days. Numbers are reals.
\<close>

definition min_overlap :: nat where
  "min_overlap = 7"

definition indicator :: "bool \<Rightarrow> real" where
  "indicator b = (if b then 1 else 0)"

definition mean :: "real list \<Rightarrow> real" where
  "mean xs = sum_list xs / real (length xs)"

definition covariance_sum :: "real list \<Rightarrow> real list \<Rightarrow> real" where
  "covariance_sum xs ys = (\<Sum>(x, y)\<leftarrow>zip xs ys. (x - mean xs) * (y - mean ys))"

definition variance_sum :: "real list \<Rightarrow> real" where
  "variance_sum xs = (\<Sum>x\<leftarrow>xs. (x - mean xs) * (x - mean xs))"

definition pearson :: "real list \<Rightarrow> real list \<Rightarrow> real" where
  "pearson xs ys =
     (if variance_sum xs = 0 \<or> variance_sum ys = 0 then 0
      else covariance_sum xs ys / (sqrt (variance_sum xs) * sqrt (variance_sum ys)))"

definition habit_correlation :: "bool list \<Rightarrow> bool list \<Rightarrow> real option" where
  "habit_correlation a b =
     (if length a \<noteq> length b \<or> length a < min_overlap then None
      else Some (pearson (map indicator a) (map indicator b)))"

text \<open>
  Example vectors over a window of 7 days: one habit done on days 1, 3, 5 and 7 and
  another done on days 1 to 6.
\<close>

definition exercise :: "bool list" where
  "exercise = [True, False, True, False, True, False, True]"

definition reading :: "bool list" where
  "reading = [True, True, True, True, True, True, False]"

section \<open>Calendar arithmetic of the \<open>Date\<close> object\<close>

text \<open>
  Days are counted from 1 January 1970, as ECMAScript counts them. \<open>DayFromYear y\<close> is the
  day number of 1 January of year \<open>y\<close> and \<open>DaysInYear y\<close> the length of the year (both as
  the language specification defines them). The model has no bound on the time value;
  ECMAScript dates end 100 000 000 days from the epoch on either side (years -271821 to
  275760), beyond which a \<open>Date\<close> is invalid.
\<close>

definition DayFromYear :: "int \<Rightarrow> int" where
  "DayFromYear y =
     365 * (y - 1970) + (y - 1969) div 4 - (y - 1901) div 100 + (y - 1601) div 400"

definition DaysInYear :: "int \<Rightarrow> int" where
  "DaysInYear y =
     (if y mod 4 \<noteq> 0 then 365
      else if y mod 100 \<noteq> 0 then 366
      else if y mod 400 \<noteq> 0 then 365
      else 366)"

text \<open>
  \<open>YearFromTime\<close> is the largest year \<open>y\<close> with \<open>DayFromYear y \<le> d\<close>. It is computed here
  by a search downwards from an upper estimate; \<open>YearFromDay_iff\<close> below shows that the
  search finds that year.
\<close>

function year_search :: "int \<Rightarrow> int \<Rightarrow> int \<Rightarrow> int" where
  "year_search lo y d =
     (if lo < y \<and> d < DayFromYear y then year_search lo (y - 1) d else y)"
  by pat_completeness auto
termination
  by (relation "measure (\<lambda>(lo, y, d). nat (y - lo))") auto

declare year_search.simps [simp del]

definition YearFromDay :: "int \<Rightarrow> int" where
  "YearFromDay d =
     year_search (1969 + min (d div 365) (d div 366)) (1971 + max (d div 365) (d div 366)) d"

text \<open>
  The day numbers of consecutive years differ by the length of the year, so \<open>DayFromYear\<close>
  is strictly increasing, and the search range of \<open>YearFromDay\<close> encloses the year sought.
\<close>

lemma div_succ:
  fixes a n :: int
  assumes "0 < n"
  shows "(a + 1) div n = a div n + (if (a + 1) mod n = 0 then 1 else 0)"
proof (cases "a mod n + 1 = n")
  case True
  have "a + 1 = n * (a div n) + (a mod n + 1)"
    using mult_div_mod_eq [of n a] by simp
  also have "\<dots> = n * (a div n) + n" using True by simp
  also have "\<dots> = n * (a div n + 1)" by (simp add: algebra_simps)
  finally have e: "a + 1 = n * (a div n + 1)" .
  from assms have "(n * (a div n + 1)) div n = a div n + 1" by simp
  moreover have "(n * (a div n + 1)) mod n = 0" by simp
  ultimately show ?thesis using e by simp
next
  case False
  have r: "0 \<le> a mod n \<and> a mod n < n" using assms by simp
  with False have r1: "0 \<le> a mod n + 1 \<and> a mod n + 1 < n" by linarith
  have e: "a + 1 = n * (a div n) + (a mod n + 1)"
    using mult_div_mod_eq [of n a] by simp
  from r1 e have "(a + 1) div n = a div n"
    by (metis int_div_pos_eq)
  moreover from r1 e have "(a + 1) mod n = a mod n + 1"
    by (metis int_mod_pos_eq)
  ultimately show ?thesis using r by simp
qed

lemma leap_steps:
  fixes y :: int
  shows "(y - 1968) div 4 = (y - 1969) div 4 + (if y mod 4 = 0 then 1 else 0)"
    and "(y - 1900) div 100 = (y - 1901) div 100 + (if y mod 100 = 0 then 1 else 0)"
    and "(y - 1600) div 400 = (y - 1601) div 400 + (if y mod 400 = 0 then 1 else 0)"
proof -
  have a: "(y - 1968) mod 4 = y mod 4"
    using mod_mult_self1 [of y "- 492" 4] by simp
  have b: "(y - 1900) mod 100 = y mod 100"
    using mod_mult_self1 [of y "- 19" 100] by simp
  have c: "(y - 1600) mod 400 = y mod 400"
    using mod_mult_self1 [of y "- 4" 400] by simp
  show "(y - 1968) div 4 = (y - 1969) div 4 + (if y mod 4 = 0 then 1 else 0)"
    using div_succ [of 4 "y - 1969"] a by simp
  show "(y - 1900) div 100 = (y - 1901) div 100 + (if y mod 100 = 0 then 1 else 0)"
    using div_succ [of 100 "y - 1901"] b by simp
  show "(y - 1600) div 400 = (y - 1601) div 400 + (if y mod 400 = 0 then 1 else 0)"
    using div_succ [of 400 "y - 1601"] c by simp
qed

lemma DayFromYear_next: "DayFromYear (y + 1) = DayFromYear y + DaysInYear y"
proof -
  have m1: "y mod 100 = 0 \<Longrightarrow> y mod 4 = 0"
    using mod_mod_cancel [of 4 100 y] by simp
  have m2: "y mod 400 = 0 \<Longrightarrow> y mod 100 = 0"
    using mod_mod_cancel [of 100 400 y] by simp
  have "DayFromYear (y + 1)
      = 365 * (y - 1969) + (y - 1968) div 4 - (y - 1900) div 100 + (y - 1600) div 400"
    by (simp add: DayFromYear_def)
  then show ?thesis
    using m1 m2 by (auto simp: leap_steps DayFromYear_def DaysInYear_def)
qed

lemma DaysInYear_range: "365 \<le> DaysInYear y \<and> DaysInYear y \<le> 366"
  by (simp add: DaysInYear_def)

lemma DayFromYear_1970: "DayFromYear 1970 = 0"
  by (simp add: DayFromYear_def)

lemma DayFromYear_diff:
  "y \<le> z \<Longrightarrow> 365 * (z - y) \<le> DayFromYear z - DayFromYear y
     \<and> DayFromYear z - DayFromYear y \<le> 366 * (z - y)"
proof (induction z rule: int_ge_induct)
  case base
  show ?case by simp
next
  case (step i)
  from DaysInYear_range [of i] DayFromYear_next [of i] step.IH show ?case by simp
qed

lemma DayFromYear_strict_mono: "y < z \<Longrightarrow> DayFromYear y < DayFromYear z"
  using DayFromYear_diff [of y z] by simp

lemma div_facts:
  fixes d :: int
  shows "365 * (d div 365) \<le> d" and "d < 365 * (d div 365) + 365"
    and "366 * (d div 366) \<le> d" and "d < 366 * (d div 366) + 366"
proof -
  have a: "0 \<le> d mod 365 \<and> d mod 365 < 365" by simp
  have b: "0 \<le> d mod 366 \<and> d mod 366 < 366" by simp
  show "365 * (d div 365) \<le> d" using mult_div_mod_eq [of 365 d] a by linarith
  show "d < 365 * (d div 365) + 365" using mult_div_mod_eq [of 365 d] a by linarith
  show "366 * (d div 366) \<le> d" using mult_div_mod_eq [of 366 d] b by linarith
  show "d < 366 * (d div 366) + 366" using mult_div_mod_eq [of 366 d] b by linarith
qed

lemma search_low: "DayFromYear (1969 + min (d div 365) (d div 366)) \<le> d"
proof (cases "0 \<le> d")
  case True
  have "d div 366 \<le> d div 365" using True by (intro zdiv_mono2) simp_all
  then have m: "min (d div 365) (d div 366) = d div 366" by simp
  from True have nn: "0 \<le> d div 366" by (simp add: pos_imp_zdiv_nonneg_iff)
  show ?thesis
  proof (cases "d div 366 = 0")
    case z: True
    have "DayFromYear 1969 = - 365" by (simp add: DayFromYear_def)
    with m z True show ?thesis by simp
  next
    case False
    with nn have "1970 \<le> 1969 + d div 366" by simp
    from DayFromYear_diff [OF this] have "DayFromYear (1969 + d div 366) \<le> 366 * (d div 366 - 1)"
      by (simp add: DayFromYear_1970)
    with div_facts(3) [of d] have "DayFromYear (1969 + d div 366) \<le> d" by simp
    with m show ?thesis by simp
  qed
next
  case False
  then have "d div 365 \<le> d div 366" by (intro zdiv_mono2_neg) simp_all
  then have m: "min (d div 365) (d div 366) = d div 365" by simp
  from False have "d div 365 < 0" by (simp add: neg_imp_zdiv_neg_iff)
  then have "1969 + d div 365 \<le> 1970" by simp
  from DayFromYear_diff [OF this]
  have "DayFromYear (1969 + d div 365) \<le> 365 * (d div 365 - 1)"
    by (simp add: DayFromYear_1970)
  with div_facts(1) [of d] have "DayFromYear (1969 + d div 365) \<le> d" by simp
  with m show ?thesis by simp
qed

lemma search_high: "d < DayFromYear (1971 + max (d div 365) (d div 366))"
proof (cases "0 \<le> d")
  case True
  have "d div 366 \<le> d div 365" using True by (intro zdiv_mono2) simp_all
  then have m: "max (d div 365) (d div 366) = d div 365" by simp
  from True have "0 \<le> d div 365" by (simp add: pos_imp_zdiv_nonneg_iff)
  then have "1970 \<le> 1971 + d div 365" by simp
  from DayFromYear_diff [OF this]
  have "365 * (d div 365 + 1) \<le> DayFromYear (1971 + d div 365)"
    by (simp add: DayFromYear_1970)
  with div_facts(2) [of d] have "d < DayFromYear (1971 + d div 365)" by simp
  with m show ?thesis by simp
next
  case False
  then have "d div 365 \<le> d div 366" by (intro zdiv_mono2_neg) simp_all
  then have m: "max (d div 365) (d div 366) = d div 366" by simp
  from False have "d div 366 < 0" by (simp add: neg_imp_zdiv_neg_iff)
  then have "1971 + d div 366 \<le> 1970" by simp
  from DayFromYear_diff [OF this]
  have "366 * (d div 366 + 1) \<le> DayFromYear (1971 + d div 366)"
    by (simp add: DayFromYear_1970)
  with div_facts(4) [of d] have "d < DayFromYear (1971 + d div 366)" by simp
  with m show ?thesis by simp
qed

lemma year_search_props:
  "lo \<le> y \<Longrightarrow> DayFromYear lo \<le> d \<Longrightarrow>
     DayFromYear (year_search lo y d) \<le> d \<and> year_search lo y d \<le> y
     \<and> (year_search lo y d < y \<longrightarrow> d < DayFromYear (year_search lo y d + 1))"
proof (induction lo y d rule: year_search.induct)
  case (1 lo y d)
  show ?case
  proof (cases "lo < y \<and> d < DayFromYear y")
    case True
    then have s: "year_search lo y d = year_search lo (y - 1) d"
      by (subst year_search.simps) simp
    from True "1.prems" have ih: "DayFromYear (year_search lo (y - 1) d) \<le> d
        \<and> year_search lo (y - 1) d \<le> y - 1
        \<and> (year_search lo (y - 1) d < y - 1 \<longrightarrow> d < DayFromYear (year_search lo (y - 1) d + 1))"
      using "1.IH" by simp
    show ?thesis
    proof (cases "year_search lo (y - 1) d = y - 1")
      case e: True
      with True ih s show ?thesis by simp
    next
      case False
      with ih s show ?thesis by simp
    qed
  next
    case False
    then have s: "year_search lo y d = y"
      by (subst year_search.simps) auto
    from False "1.prems" have "DayFromYear y \<le> d"
      by (cases "lo < y") auto
    with s show ?thesis by simp
  qed
qed

lemma YearFromDay_bounds:
  "DayFromYear (YearFromDay d) \<le> d \<and> d < DayFromYear (YearFromDay d + 1)"
proof -
  define lo where "lo = 1969 + min (d div 365) (d div 366)"
  define hi where "hi = 1971 + max (d div 365) (d div 366)"
  have lh: "lo \<le> hi" by (simp add: lo_def hi_def)
  have low: "DayFromYear lo \<le> d" unfolding lo_def by (rule search_low)
  have high: "d < DayFromYear hi" unfolding hi_def by (rule search_high)
  have y: "YearFromDay d = year_search lo hi d" by (simp add: YearFromDay_def lo_def hi_def)
  from year_search_props [OF lh low]
  have p: "DayFromYear (year_search lo hi d) \<le> d" "year_search lo hi d \<le> hi"
    "year_search lo hi d < hi \<longrightarrow> d < DayFromYear (year_search lo hi d + 1)"
    by simp_all
  from p(1) high have "year_search lo hi d \<noteq> hi" by auto
  with p show ?thesis unfolding y by simp
qed

lemma YearFromDay_unique:
  assumes "DayFromYear y \<le> d" and "d < DayFromYear (y + 1)"
  shows "YearFromDay d = y"
proof (rule ccontr)
  assume ne: "YearFromDay d \<noteq> y"
  note b = YearFromDay_bounds [of d]
  show False
  proof (cases "YearFromDay d < y")
    case True
    then have "YearFromDay d + 1 \<le> y" by simp
    then have "DayFromYear (YearFromDay d + 1) \<le> DayFromYear y"
      using DayFromYear_diff [of "YearFromDay d + 1" y] by simp
    with b assms show False by simp
  next
    case False
    with ne have "y + 1 \<le> YearFromDay d" by simp
    then have "DayFromYear (y + 1) \<le> DayFromYear (YearFromDay d)"
      using DayFromYear_diff [of "y + 1" "YearFromDay d"] by simp
    with b assms show False by simp
  qed
qed

lemma YearFromDay_iff: "YearFromDay d = y \<longleftrightarrow> DayFromYear y \<le> d \<and> d < DayFromYear (y + 1)"
  using YearFromDay_bounds [of d] YearFromDay_unique [of y d] by auto

lemma YearFromDay_gt: "y < YearFromDay d \<longleftrightarrow> DayFromYear (y + 1) \<le> d"
proof
  assume "y < YearFromDay d"
  then have "y + 1 \<le> YearFromDay d" by simp
  then have "DayFromYear (y + 1) \<le> DayFromYear (YearFromDay d)"
    using DayFromYear_diff [of "y + 1" "YearFromDay d"] by simp
  with YearFromDay_bounds [of d] show "DayFromYear (y + 1) \<le> d" by simp
next
  assume a: "DayFromYear (y + 1) \<le> d"
  show "y < YearFromDay d"
  proof (rule ccontr)
    assume "\<not> y < YearFromDay d"
    then have "YearFromDay d + 1 \<le> y + 1" by simp
    then have "DayFromYear (YearFromDay d + 1) \<le> DayFromYear (y + 1)"
      using DayFromYear_diff [of "YearFromDay d + 1" "y + 1"] by simp
    with YearFromDay_bounds [of d] a show False by simp
  qed
qed

section \<open>Heatmap calendar (analytics-viz.js)\<close>

text \<open>
  A \<open>Date\<close> object in \<open>renderHeatmapCalendar\<close> always holds local midnight of some day,
  so it is modelled by the number of that local day (changes of the offset through
  daylight saving are not modelled). \<open>new Date(year, month, date)\<close> reads its arguments in
  local time and maps the years 0 to 99 to 1900 to 1999. \<open>getDay\<close> is the local weekday
  (0 is Sunday; 1 January 1970 was a Thursday) and \<open>getFullYear\<close> the local year.

  \<open>toISOString\<close> prints the date in UTC. With the local offset \<open>tz\<close> in minutes east of
  UTC, local midnight of day \<open>d\<close> is the instant \<open>d * 1440 - tz\<close> minutes after the epoch,
  so the date printed is \<open>(d * 1440 - tz) div 1440\<close>. The part of the string before
  \<open>T\<close>, \<open>YYYY-MM-DD\<close>, is modelled by the day number it names; the keys of the data
  map, the \<open>date\<close> fields of the response, are day numbers in the same way.
\<close>

type_synonym date = int

text \<open>
  \<open>MakeDay\<close> of the language specification: the month is reduced to 0 to 11 with the
  surplus carried into the year, and the day of the month is added to the first day of that
  month. \<open>month_start\<close> is the number of days of the year before the month.
\<close>

definition month_start :: "nat \<Rightarrow> int \<Rightarrow> int" where
  "month_start mn y =
     [0, 31, 59, 90, 120, 151, 181, 212, 243, 273, 304, 334] ! mn
       + (if 2 \<le> mn \<and> DaysInYear y = 366 then 1 else 0)"

definition new_Date :: "int \<Rightarrow> int \<Rightarrow> int \<Rightarrow> date" where
  "new_Date year month dt =
     (let yr = (if 0 \<le> year \<and> year \<le> 99 then 1900 + year else year);
          ym = yr + month div 12;
          mn = nat (month mod 12)
      in DayFromYear ym + month_start mn ym + (dt - 1))"

definition getDay :: "date \<Rightarrow> int" where
  "getDay d = (d + 4) mod 7"

definition getFullYear :: "date \<Rightarrow> int" where
  "getFullYear d = YearFromDay d"

definition toISODate :: "int \<Rightarrow> date \<Rightarrow> int" where
  "toISODate tz d = (d * 1440 - tz) div 1440"

text \<open>
  The response of \<open>/api/analytics/heatmap\<close>: \<open>result.success\<close> and \<open>result.data\<close>, the
  entries with \<open>date\<close>, \<open>completed\<close>, \<open>total\<close> and \<open>percentage\<close>.
\<close>

record heatmap_entry =
  entry_date :: int
  completed :: nat
  total :: nat
  percentage :: real

record heatmap_result =
  heatmap_success :: bool
  heatmap_data :: "heatmap_entry list"

text \<open>
  \<^verbatim>\<open>
  const dataMap = {};
  result.data.forEach(d => { dataMap[d.date] = d; });
  \<close>
\<close>

definition build_dataMap :: "heatmap_entry list \<Rightarrow> (int \<rightharpoonup> heatmap_entry)" where
  "build_dataMap entries = fold (\<lambda>d dataMap. dataMap(entry_date d \<mapsto> d)) entries Map.empty"

text \<open>
  A rendered cell: the level of its class \<open>level-N\<close>, the date in \<open>data-date\<close>, and the
  entry its tooltip shows (\<open>None\<close> for the text \<open>No data\<close>).
\<close>

record heatmap_cell =
  cell_level :: nat
  cell_date :: int
  cell_tooltip :: "heatmap_entry option"

definition render_cell :: "int \<Rightarrow> (int \<rightharpoonup> heatmap_entry) \<Rightarrow> date \<Rightarrow> heatmap_cell" where
  "render_cell tz dataMap currentDate =
     (let dateStr = toISODate tz currentDate;
          entry = dataMap dateStr;
          level = (case entry of None \<Rightarrow> 0 | Some e \<Rightarrow> getHeatmapLevel (percentage e))
      in \<lparr>cell_level = level, cell_date = dateStr, cell_tooltip = entry\<rparr>)"

text \<open>
  \<^verbatim>\<open>
  let currentDate = new Date(startDate);
  while (currentDate.getDay() !== 1) {
      currentDate.setDate(currentDate.getDate() - 1);
  }
  \<close>
\<close>

function first_monday :: "date \<Rightarrow> date" where
  "first_monday currentDate =
     (if getDay currentDate \<noteq> 1 then first_monday (currentDate - 1) else currentDate)"
  by pat_completeness auto
termination
proof (relation "measure (\<lambda>d. nat ((d + 3) mod 7))")
  show "wf (measure (\<lambda>d. nat ((d + 3) mod 7)))" by simp
next
  fix currentDate :: int
  assume "getDay currentDate \<noteq> 1"
  then have "(currentDate + 4) mod 7 \<noteq> 1" by (simp add: getDay_def)
  then have "(currentDate - 1 + 3) mod 7 < (currentDate + 3) mod 7" by presburger
  moreover have "0 \<le> (currentDate - 1 + 3) mod 7" by simp
  ultimately show "(currentDate - 1, currentDate) \<in> measure (\<lambda>d. nat ((d + 3) mod 7))"
    by simp
qed

declare first_monday.simps [simp del]

text \<open>
  \<^verbatim>\<open>
  for (let day = 0; day < 7; day++) {
      const dateStr = currentDate.toISOString().split('T')[0];
      const data = dataMap[dateStr];
      const level = data ? getHeatmapLevel(data.percentage) : 0;
      const tooltipText = data ? `${dateStr}: ${data.completed}/${data.total} habits (...)`
                               : `${dateStr}: No data`;
      html += `<div class="heatmap-cell level-${level}" data-date="${dateStr}" ...></div>`;
      currentDate.setDate(currentDate.getDate() + 1);
  }
  \<close>
  The first argument of \<open>week_cells\<close> is the number of iterations left.
\<close>

fun week_cells :: "nat \<Rightarrow> int \<Rightarrow> (int \<rightharpoonup> heatmap_entry) \<Rightarrow> date \<Rightarrow> heatmap_cell list" where
  "week_cells 0 tz dataMap currentDate = []"
| "week_cells (Suc n) tz dataMap currentDate =
     render_cell tz dataMap currentDate # week_cells n tz dataMap (currentDate + 1)"

text \<open>
  \<^verbatim>\<open>
  let weekCount = 0;
  while (currentDate <= endDate || currentDate.getFullYear() === year) {
      for (...) { ... }
      weekCount++;
      if (currentDate.getFullYear() > year && weekCount > 52) break;
  }
  \<close>
  After the inner loop the current date is seven days later. The loop ends: while its
  condition holds the current date is before the later of the day after \<open>endDate\<close> and
  1 January of the next year.
\<close>

function heatmap_weeks ::
  "int \<Rightarrow> (int \<rightharpoonup> heatmap_entry) \<Rightarrow> int \<Rightarrow> date \<Rightarrow> date \<Rightarrow> nat \<Rightarrow> heatmap_cell list
     \<Rightarrow> heatmap_cell list" where
  "heatmap_weeks tz dataMap year endDate currentDate weekCount html =
     (if currentDate \<le> endDate \<or> getFullYear currentDate = year then
        (if getFullYear (currentDate + 7) > year \<and> weekCount + 1 > 52
         then html @ week_cells 7 tz dataMap currentDate
         else heatmap_weeks tz dataMap year endDate (currentDate + 7) (weekCount + 1)
                (html @ week_cells 7 tz dataMap currentDate))
      else html)"
  by pat_completeness auto
termination
proof (relation "measure (\<lambda>(tz, dataMap, year, endDate, currentDate, weekCount, html).
                   nat (max (endDate + 1) (DayFromYear (year + 1)) - currentDate))")
  show "wf (measure (\<lambda>(tz, dataMap, year, endDate, currentDate, weekCount, html).
                   nat (max (endDate + 1) (DayFromYear (year + 1)) - currentDate)))"
    by simp
next
  fix tz :: int and dataMap :: "int \<rightharpoonup> heatmap_entry" and year endDate currentDate :: int
    and weekCount :: nat and html :: "heatmap_cell list"
  assume "currentDate \<le> endDate \<or> getFullYear currentDate = year"
  then have "currentDate < max (endDate + 1) (DayFromYear (year + 1))"
    using YearFromDay_bounds [of currentDate] by (auto simp: getFullYear_def)
  then show "((tz, dataMap, year, endDate, currentDate + 7, weekCount + 1,
               html @ week_cells 7 tz dataMap currentDate),
              (tz, dataMap, year, endDate, currentDate, weekCount, html))
      \<in> measure (\<lambda>(tz, dataMap, year, endDate, currentDate, weekCount, html).
                   nat (max (endDate + 1) (DayFromYear (year + 1)) - currentDate))"
    by simp
qed

declare heatmap_weeks.simps [simp del]

text \<open>
  \<^verbatim>\<open>
  async function renderHeatmapCalendar(year) {
      const container = document.getElementById('heatmapContainer');
      if (!container) return;
      const result = await API.get(`/api/analytics/heatmap?year=${year}`);
      if (!result.success) {
          container.innerHTML = '<p class="text-error">Failed to load heatmap data</p>';
          return;
      }
      ...
      const startDate = new Date(year, 0, 1);
      const endDate = new Date(year, 11, 31);
      ...
      container.innerHTML = html;
  }
  \<close>
  The arguments are the local offset from UTC in minutes, whether the container exists, the
  outcome of \<open>API.get\<close> and the year. The view is the header's year and the cells of the
  grid, in the order they are written.
\<close>

datatype heatmap_view =
    HeatNoContainer
  | HeatRejected js_error
  | HeatError string
  | HeatGrid int "heatmap_cell list"

definition renderHeatmapCalendar ::
  "int \<Rightarrow> bool \<Rightarrow> js_error + heatmap_result \<Rightarrow> int \<Rightarrow> heatmap_view" where
  "renderHeatmapCalendar tz container api year =
     (if \<not> container then HeatNoContainer
      else case api of
        Inl e \<Rightarrow> HeatRejected e
      | Inr result \<Rightarrow>
          if \<not> heatmap_success result then HeatError ''Failed to load heatmap data''
          else
            (let dataMap = build_dataMap (heatmap_data result);
                 startDate = new_Date year 0 1;
                 endDate = new_Date year 11 31;
                 currentDate = first_monday startDate
             in HeatGrid year (heatmap_weeks tz dataMap year endDate currentDate 0 [])))"

text \<open>The cells of a view and the dates they carry in \<open>data-date\<close>.\<close>

fun grid_cells :: "heatmap_view \<Rightarrow> heatmap_cell list" where
  "grid_cells (HeatGrid y cells) = cells"
| "grid_cells v = []"

definition grid_dates :: "heatmap_view \<Rightarrow> int list" where
  "grid_dates v = map cell_date (grid_cells v)"

text \<open>
  For the statements about the grid: the day after the last cell when the loop starts at
  \<open>cur\<close> and the next year begins on day \<open>n\<close>; and a response without any entry.
\<close>

definition grid_end :: "int \<Rightarrow> int \<Rightarrow> int" where
  "grid_end n cur = (if cur < n then cur + 7 * ((n - cur + 6) div 7) else cur)"

definition empty_year :: heatmap_result where
  "empty_year = \<lparr>heatmap_success = True, heatmap_data = []\<rparr>"

section \<open>Properties of the level functions\<close>

text \<open>
  C1. The heatmap level follows the fixed thresholds: 0 percent gives level 0, a percentage
  from 1 to 25 gives level 1, from 26 to 50 level 2, from 51 to 75 level 3 and from 76 to 100
  level 4; in particular 25 gives 1, 50 gives 2, 75 gives 3, 76 gives 4 and 100 gives 4; and
  over the interval from 0 to 100 the level never decreases when the percentage increases.
\<close>

theorem heatmap_level_thresholds:
  "getHeatmapLevel 0 = 0
   \<and> (\<forall>p. 1 \<le> p \<and> p \<le> 25 \<longrightarrow> getHeatmapLevel p = 1)
   \<and> (\<forall>p. 26 \<le> p \<and> p \<le> 50 \<longrightarrow> getHeatmapLevel p = 2)
   \<and> (\<forall>p. 51 \<le> p \<and> p \<le> 75 \<longrightarrow> getHeatmapLevel p = 3)
   \<and> (\<forall>p. 76 \<le> p \<and> p \<le> 100 \<longrightarrow> getHeatmapLevel p = 4)
   \<and> getHeatmapLevel 25 = 1 \<and> getHeatmapLevel 50 = 2 \<and> getHeatmapLevel 75 = 3
   \<and> getHeatmapLevel 76 = 4 \<and> getHeatmapLevel 100 = 4
   \<and> (\<forall>p q. 0 \<le> p \<and> p \<le> q \<and> q \<le> 100 \<longrightarrow> getHeatmapLevel p \<le> getHeatmapLevel q)"
  by (simp add: getHeatmapLevel_def)

theorem heatmap_level_thresholds_witness:
  "getHeatmapLevel 13 = 1 \<and> getHeatmapLevel 40 = 2 \<and> getHeatmapLevel 60 = 3
   \<and> getHeatmapLevel 90 = 4 \<and> getHeatmapLevel 40 \<le> getHeatmapLevel 90"
proof -
  note t = heatmap_level_thresholds
  have a: "getHeatmapLevel 13 = 1" using t by simp
  have b: "getHeatmapLevel 40 = 2" using t by simp
  have c: "getHeatmapLevel 60 = 3" using t by simp
  have d: "getHeatmapLevel 90 = 4" using t by simp
  have e: "getHeatmapLevel 40 \<le> getHeatmapLevel 90"
  proof -
    from t have "\<forall>p q. 0 \<le> p \<and> p \<le> q \<and> q \<le> 100 \<longrightarrow> getHeatmapLevel p \<le> getHeatmapLevel q"
      by blast
    then have "(0::real) \<le> 40 \<and> (40::real) \<le> 90 \<and> (90::real) \<le> 100
        \<longrightarrow> getHeatmapLevel 40 \<le> getHeatmapLevel 90"
      by blast
    then show ?thesis by simp
  qed
  from a b c d e show ?thesis by simp
qed

text \<open>
  C8. The heatmap level is defined for every real input and is always one of 0, 1, 2, 3, 4;
  every nonzero input that is at most 25, negative percentages included, gives level 1, and
  every input above 75, values above 100 included, gives level 4.
\<close>

theorem heatmap_level_total_range:
  "getHeatmapLevel p \<in> {0, 1, 2, 3, 4}
   \<and> (p \<noteq> 0 \<and> p \<le> 25 \<longrightarrow> getHeatmapLevel p = 1)
   \<and> (p > 75 \<longrightarrow> getHeatmapLevel p = 4)"
  by (simp add: getHeatmapLevel_def)

theorem heatmap_level_total_range_witness:
  "((-40::real) \<noteq> 0 \<and> (-40::real) \<le> 25) \<and> getHeatmapLevel (-40) = 1
   \<and> (250::real) > 75 \<and> getHeatmapLevel 250 = 4"
  using heatmap_level_total_range [of "-40"] heatmap_level_total_range [of 250]
  by simp

text \<open>
  C9. The correlation display level is monotone non-decreasing in its argument, is always one
  of 0, 1, 2, 3, 4, and is 0 for every non-positive correlation coefficient.
\<close>

theorem correlation_level_monotone_range:
  "(c \<le> d \<longrightarrow> getCorrelationLevel c \<le> getCorrelationLevel d)
   \<and> getCorrelationLevel c \<in> {0, 1, 2, 3, 4}
   \<and> (c \<le> 0 \<longrightarrow> getCorrelationLevel c = 0)"
  by (simp add: getCorrelationLevel_def)

theorem correlation_level_monotone_range_witness:
  "(-1 / 2 :: real) \<le> 6 / 10
   \<and> getCorrelationLevel (-1 / 2) \<le> getCorrelationLevel (6 / 10)
   \<and> (-1 / 2 :: real) \<le> 0 \<and> getCorrelationLevel (-1 / 2) = 0"
  using correlation_level_monotone_range [of "-1 / 2" "6 / 10"]
  by simp

section \<open>Properties of theme management\<close>

lemma Theme_apply_data_theme: "data_theme (Theme_apply t s) = Some t"
  by (simp add: Theme_apply_def Let_def split: option.splits)

lemma Theme_apply_storage: "localStorage (Theme_apply t s) storageKey = Some t"
  by (simp add: Theme_apply_def Let_def split: option.splits)

lemma Theme_toggle_data_theme:
  "data_theme (Theme_toggle s) = Some (if Theme_get s = ''dark'' then ''light'' else ''dark'')"
  by (simp add: Theme_toggle_def Theme_get_def Let_def Theme_apply_data_theme)

lemma Theme_toggle_storage:
  "localStorage (Theme_toggle s) storageKey
     = Some (if Theme_get s = ''dark'' then ''light'' else ''dark'')"
  by (simp add: Theme_toggle_def Theme_get_def Let_def Theme_apply_storage)

lemma Theme_get_toggle:
  "Theme_get (Theme_toggle s) = (if Theme_get s = ''dark'' then ''light'' else ''dark'')"
  by (simp add: Theme_get_def [of "Theme_toggle s"] Theme_toggle_data_theme)

text \<open>
  C10. For every non-empty theme string \<open>t\<close>, after \<open>Theme.apply(t)\<close> the \<open>data-theme\<close>
  attribute and the entry of \<open>localStorage\<close> under the storage key both equal \<open>t\<close>, and
  \<open>Theme.get()\<close> returns \<open>t\<close>. \<open>Theme.toggle\<close> turns a current theme of \<open>dark\<close> into
  \<open>light\<close> and any other current theme into \<open>dark\<close>, so toggling twice from \<open>dark\<close> or
  from \<open>light\<close> restores the original theme, in the attribute and in the storage as well.
\<close>

theorem theme_apply_get_toggle:
  "(t \<noteq> [] \<longrightarrow>
      data_theme (Theme_apply t s) = Some t
      \<and> localStorage (Theme_apply t s) storageKey = Some t
      \<and> Theme_get (Theme_apply t s) = t)
   \<and> (Theme_get s = ''dark'' \<longrightarrow> Theme_get (Theme_toggle s) = ''light'')
   \<and> (Theme_get s \<noteq> ''dark'' \<longrightarrow> Theme_get (Theme_toggle s) = ''dark'')
   \<and> (Theme_get s = ''dark'' \<or> Theme_get s = ''light'' \<longrightarrow>
        Theme_get (Theme_toggle (Theme_toggle s)) = Theme_get s
        \<and> data_theme (Theme_toggle (Theme_toggle s)) = Some (Theme_get s)
        \<and> localStorage (Theme_toggle (Theme_toggle s)) storageKey = Some (Theme_get s))"
proof -
  have a: "t \<noteq> [] \<Longrightarrow> Theme_get (Theme_apply t s) = t"
    by (simp add: Theme_get_def Theme_apply_data_theme)
  have b: "Theme_get s = ''dark'' \<or> Theme_get s = ''light'' \<Longrightarrow>
      Theme_get (Theme_toggle (Theme_toggle s)) = Theme_get s"
    by (auto simp: Theme_get_toggle)
  have c: "Theme_get s = ''dark'' \<or> Theme_get s = ''light'' \<Longrightarrow>
      data_theme (Theme_toggle (Theme_toggle s)) = Some (Theme_get s)"
    by (auto simp: Theme_toggle_data_theme Theme_get_toggle)
  have d: "Theme_get s = ''dark'' \<or> Theme_get s = ''light'' \<Longrightarrow>
      localStorage (Theme_toggle (Theme_toggle s)) storageKey = Some (Theme_get s)"
    by (auto simp: Theme_toggle_storage Theme_get_toggle)
  show ?thesis
    using a b c d by (simp add: Theme_apply_data_theme Theme_apply_storage Theme_get_toggle)
qed

theorem theme_apply_get_toggle_witness:
  "''solar'' \<noteq> [] \<and> Theme_get (Theme_apply ''solar'' light_browser) = ''solar''
   \<and> Theme_get light_browser \<noteq> ''dark''
   \<and> Theme_get (Theme_toggle light_browser) = ''dark''
   \<and> Theme_get (Theme_toggle (Theme_toggle light_browser)) = ''light''
   \<and> data_theme (Theme_toggle (Theme_toggle light_browser)) = Some ''light''
   \<and> Theme_get fresh_browser = ''dark''
   \<and> Theme_get (Theme_toggle fresh_browser) = ''light''
   \<and> Theme_get (Theme_toggle (Theme_toggle fresh_browser)) = ''dark''"
proof -
  have g: "Theme_get light_browser = ''light''"
    by (simp add: Theme_get_def light_browser_def)
  have f: "Theme_get fresh_browser = ''dark''"
    by (simp add: Theme_get_def fresh_browser_def)
  show ?thesis
    using theme_apply_get_toggle [of "''solar''" light_browser]
      theme_apply_get_toggle [of "''solar''" fresh_browser] g f
    by simp
qed

section \<open>Properties of the API layer\<close>

lemma request_non_json:
  "\<not> is_json_content (content_type r) \<Longrightarrow>
     API_request (FetchResolved r) = Inl (Error (JStr ''Server error: Received non-JSON response''))"
  by (simp add: API_request_def)

lemma request_not_ok_no_success:
  assumes "is_json_content (content_type r)" and "\<not> ok r" and "\<not> body_has_success r"
  shows "\<exists>e. API_request (FetchResolved r) = Inl e"
proof (cases "body_json r")
  case None
  with assms show ?thesis by (simp add: API_request_def)
next
  case (Some data)
  show ?thesis
  proof (cases "get_property data ''success''")
    case (Inl e)
    with Some assms show ?thesis by (simp add: API_request_def)
  next
    case (Inr success)
    with Some assms have f: "\<not> truthy success"
      by (simp add: body_has_success_def)
    show ?thesis
    proof (cases "get_property data ''message''")
      case (Inl e)
      with Some Inr f assms show ?thesis by (simp add: API_request_def)
    next
      case msg: (Inr message)
      with Some Inr f assms show ?thesis
        by (cases message) (simp_all add: API_request_def)
    qed
  qed
qed

text \<open>
  C6. For every response that is not JSON (no content type, or one without
  \<open>application/json\<close>), or that is not ok and whose body lacks a truthy \<open>success\<close>,
  \<open>API.request\<close> throws: the promise rejects with an error and does not resolve to a value.
\<close>

theorem request_surfaces_failure:
  "\<not> is_json_content (content_type r) \<or> (\<not> ok r \<and> \<not> body_has_success r) \<Longrightarrow>
     \<exists>e. API_request (FetchResolved r) = Inl e"
  using request_non_json [of r] request_not_ok_no_success [of r] by blast

theorem request_surfaces_failure_witness:
  "\<not> is_json_content (content_type html_500)
   \<and> (\<not> ok json_500 \<and> \<not> body_has_success json_500)
   \<and> (\<exists>e. API_request (FetchResolved html_500) = Inl e)
   \<and> (\<exists>e. API_request (FetchResolved json_500) = Inl e)"
proof -
  have a: "\<not> is_json_content (content_type html_500)"
    by (simp add: is_json_content_def html_500_def indexOf_def)
  have b: "\<not> ok json_500 \<and> \<not> body_has_success json_500"
    by (simp add: json_500_def body_has_success_def)
  from a b request_surfaces_failure [of html_500] request_surfaces_failure [of json_500]
  show ?thesis by blast
qed

text \<open>Conversely, the promise resolves only for a JSON response that is ok or has \<open>success\<close>.\<close>

lemma request_resolves_only_on_success:
  "API_request (FetchResolved r) = Inr data \<Longrightarrow>
     is_json_content (content_type r) \<and> body_json r = Some data \<and> (ok r \<or> body_has_success r)"
  by (auto simp: API_request_def body_has_success_def
      split: if_splits option.splits sum.splits)

lemma request_json_500: "API_request (FetchResolved json_500) = Inl (Error (JStr ''db down''))"
  by (simp add: API_request_def json_500_def is_json_content_def indexOf_def)

section \<open>Properties of the correlation list view\<close>




section \<open>Properties of the period comparison\<close>

lemma displayed_changes_compare:
  "displayed_changes (renderComparisonChart True True (Inr (compare_periods p1 p2)))
     = [Finite \<bar>percentage_change (habits_completed p1) (habits_completed p2)\<bar>,
        Finite \<bar>percentage_change (tasks_completed p1) (tasks_completed p2)\<bar>]"
  by (simp add: renderComparisonChart_def compare_periods_def render_change_def Let_def)

lemma afterLabel_compare:
  "afterLabel (compare_periods p1 p2) i j = Some (a, v) \<Longrightarrow> is_finite v"
  by (auto simp: afterLabel_def compare_periods_def Let_def split: if_splits)

text \<open>
  The view itself applies no guard: a change that is not a number would be displayed as
  \<open>NaN\<close> with the falling arrow. The finiteness below rests on the comparator.
\<close>

lemma render_change_no_guard:
  "change_value (render_change label NaN) = NaN \<and> change_arrow (render_change label NaN) = Down"
  by (simp add: render_change_def)

text \<open>
  C5. When the count of period 1 is 0 and the count of period 2 is not, the reported change
  is the sentinel 0: no error is raised and no \<open>NaN\<close> reaches the output, and the view
  shows it as a rise of 0 percent. For all counts, the change values that the comparison
  view consumes and displays, in the change items and in the tooltips of the chart, are
  finite numbers.
\<close>

theorem comparison_zero_baseline_sentinel:
  "(habits_completed p1 = 0 \<and> habits_completed p2 \<noteq> 0 \<longrightarrow>
      habits_change (cmp_comparison (compare_periods p1 p2)) = Finite 0
      \<and> hd (displayed_changes (renderComparisonChart True True (Inr (compare_periods p1 p2))))
          = Finite 0
      \<and> afterLabel (compare_periods p1 p2) 0 0 = Some (Up, Finite 0))
   \<and> (tasks_completed p1 = 0 \<and> tasks_completed p2 \<noteq> 0 \<longrightarrow>
      tasks_change (cmp_comparison (compare_periods p1 p2)) = Finite 0
      \<and> afterLabel (compare_periods p1 p2) 0 1 = Some (Up, Finite 0))
   \<and> length (displayed_changes (renderComparisonChart True True (Inr (compare_periods p1 p2)))) = 2
   \<and> list_all is_finite
        (displayed_changes (renderComparisonChart True True (Inr (compare_periods p1 p2))))
   \<and> (\<forall>i j a v. afterLabel (compare_periods p1 p2) i j = Some (a, v) \<longrightarrow> is_finite v)"
proof -
  have a: "habits_completed p1 = 0 \<Longrightarrow>
      habits_change (cmp_comparison (compare_periods p1 p2)) = Finite 0"
    by (simp add: compare_periods_def percentage_change_def)
  have b: "tasks_completed p1 = 0 \<Longrightarrow>
      tasks_change (cmp_comparison (compare_periods p1 p2)) = Finite 0"
    by (simp add: compare_periods_def percentage_change_def)
  have c: "habits_completed p1 = 0 \<Longrightarrow> afterLabel (compare_periods p1 p2) 0 0 = Some (Up, Finite 0)"
    using a by (simp add: afterLabel_def Let_def)
  have d: "tasks_completed p1 = 0 \<Longrightarrow> afterLabel (compare_periods p1 p2) 0 1 = Some (Up, Finite 0)"
    using b by (simp add: afterLabel_def Let_def)
  have e: "habits_completed p1 = 0 \<Longrightarrow>
      hd (displayed_changes (renderComparisonChart True True (Inr (compare_periods p1 p2))))
        = Finite 0"
    by (simp add: displayed_changes_compare percentage_change_def)
  have f: "\<forall>i j a v. afterLabel (compare_periods p1 p2) i j = Some (a, v) \<longrightarrow> is_finite v"
    using afterLabel_compare by blast
  show ?thesis
    using a b c d e f by (simp add: displayed_changes_compare)
qed

theorem comparison_zero_baseline_sentinel_witness:
  "habits_completed idle_month = 0 \<and> habits_completed busy_month \<noteq> 0
   \<and> tasks_completed idle_month = 0 \<and> tasks_completed busy_month \<noteq> 0
   \<and> habits_change (cmp_comparison (compare_periods idle_month busy_month)) = Finite 0
   \<and> tasks_change (cmp_comparison (compare_periods idle_month busy_month)) = Finite 0
   \<and> afterLabel (compare_periods idle_month busy_month) 0 0 = Some (Up, Finite 0)
   \<and> is_finite (Finite 0)"
proof -
  have h: "habits_completed idle_month = 0 \<and> habits_completed busy_month \<noteq> 0"
    by (simp add: idle_month_def busy_month_def)
  have t: "tasks_completed idle_month = 0 \<and> tasks_completed busy_month \<noteq> 0"
    by (simp add: idle_month_def busy_month_def)
  note cz = comparison_zero_baseline_sentinel [of idle_month busy_month]
  have l: "afterLabel (compare_periods idle_month busy_month) 0 0 = Some (Up, Finite 0)"
    using cz h by blast
  have "\<forall>i j a v. afterLabel (compare_periods idle_month busy_month) i j = Some (a, v)
          \<longrightarrow> is_finite v"
    using cz by blast
  with l have fin: "is_finite (Finite 0)" by blast
  from cz h t l fin show ?thesis by blast
qed

section \<open>Properties of the streak calculator\<close>

lemma consecutive_back_absent: "d \<notin> set ds \<Longrightarrow> consecutive_back ds d n = 0"
  by (cases n) simp_all

lemma longest_run_all_absent: "\<forall>b \<in> set bs. \<not> b \<Longrightarrow> longest_run bs run best = best"
  by (induction bs arbitrary: run best) auto

lemma current_streak_no_logs:
  assumes "\<forall>d \<in> set (window_days h). d \<notin> set (logged h)"
  shows "current_streak h = 0"
proof (cases "log_today h \<in> set (logged h)")
  case True
  with assms have "log_today h \<notin> set (window_days h)" by blast
  then have "elapsed_days h = 0"
    by (simp add: window_days_def elapsed_days_def)
  with True show ?thesis by (simp add: current_streak_def)
next
  case False
  show ?thesis
  proof (cases "elapsed_days h - 1")
    case 0
    with False show ?thesis by (simp add: current_streak_def)
  next
    case (Suc n)
    then have "window_start h \<le> log_today h - 1"
      by (simp add: window_days_def elapsed_days_def)
    then have "log_today h - 1 \<in> set (window_days h)"
      by (simp add: window_days_def)
    with assms have "log_today h - 1 \<notin> set (logged h)" by blast
    with False show ?thesis
      by (simp add: current_streak_def consecutive_back_absent)
  qed
qed

text \<open>
  C3. For a habit with zero logged completion days (no logged date in the window; in
  particular an empty log) the calculator returns completion rate 0, current streak 0 and
  best streak 0; and a habit with zero elapsed days has completion rate 0, with no division.
\<close>

theorem streaks_zero_without_logs:
  "((\<forall>d \<in> set (window_days h). d \<notin> set (logged h)) \<longrightarrow>
      completion_rate h = 0 \<and> current_streak h = 0 \<and> best_streak h = 0)
   \<and> (logged h = [] \<longrightarrow>
      completion_rate h = 0 \<and> current_streak h = 0 \<and> best_streak h = 0)
   \<and> (elapsed_days h = 0 \<longrightarrow> completion_rate h = 0)"
proof -
  have main: "completion_rate h = 0 \<and> current_streak h = 0 \<and> best_streak h = 0"
    if no: "\<forall>d \<in> set (window_days h). d \<notin> set (logged h)"
  proof -
    from no have "filter (\<lambda>d. d \<in> set (logged h)) (window_days h) = []"
      by (simp add: filter_empty_conv)
    then have "present_days h = 0" by (simp add: present_days_def)
    then have r: "completion_rate h = 0" by (simp add: completion_rate_def)
    from no have b: "best_streak h = 0"
      by (simp add: best_streak_def longest_run_all_absent)
    from r b current_streak_no_logs [OF no] show ?thesis by simp
  qed
  have empty: "logged h = [] \<Longrightarrow> \<forall>d \<in> set (window_days h). d \<notin> set (logged h)"
    by simp
  have zero: "elapsed_days h = 0 \<Longrightarrow> completion_rate h = 0"
    by (simp add: completion_rate_def)
  from main empty zero show ?thesis by blast
qed

theorem streaks_zero_without_logs_witness:
  "set (window_days logged_earlier) \<inter> set (logged logged_earlier) = {}
   \<and> completion_rate logged_earlier = 0 \<and> current_streak logged_earlier = 0
   \<and> best_streak logged_earlier = 0
   \<and> logged never_done = [] \<and> elapsed_days never_done = 30
   \<and> completion_rate never_done = 0 \<and> current_streak never_done = 0
   \<and> best_streak never_done = 0
   \<and> elapsed_days no_days_yet = 0 \<and> completion_rate no_days_yet = 0"
proof -
  have a: "logged never_done = []" by (simp add: never_done_def)
  have b: "elapsed_days never_done = 30"
    by (simp add: never_done_def elapsed_days_def window_days_def)
  have c: "elapsed_days no_days_yet = 0"
    by (simp add: no_days_yet_def elapsed_days_def window_days_def)
  have d: "set (window_days logged_earlier) \<inter> set (logged logged_earlier) = {}"
    by (simp add: logged_earlier_def window_days_def)
  then have d': "\<forall>d \<in> set (window_days logged_earlier). d \<notin> set (logged logged_earlier)"
    by blast
  from streaks_zero_without_logs [of never_done] streaks_zero_without_logs [of no_days_yet]
    streaks_zero_without_logs [of logged_earlier] a b c d d'
  show ?thesis by blast
qed

section \<open>Properties of the correlation engine\<close>

lemma covariance_sum_commute: "covariance_sum xs ys = covariance_sum ys xs"
proof -
  have "zip xs ys = map (\<lambda>(x, y). (y, x)) (zip ys xs)" by (rule zip_commute)
  then show ?thesis
    by (simp add: covariance_sum_def comp_def case_prod_unfold mult.commute)
qed

lemma pearson_commute: "pearson xs ys = pearson ys xs"
  by (simp add: pearson_def covariance_sum_commute [of xs ys] mult.commute disj_commute)

lemma covariance_sum_self: "covariance_sum xs xs = variance_sum xs"
  by (simp add: covariance_sum_def variance_sum_def zip_same_conv_map comp_def)

lemma variance_sum_nonneg: "0 \<le> variance_sum xs"
  unfolding variance_sum_def by (rule sum_list_nonneg) auto

lemma pearson_self: "variance_sum xs \<noteq> 0 \<Longrightarrow> pearson xs xs = 1"
  using variance_sum_nonneg [of xs] by (simp add: pearson_def covariance_sum_self)

lemma variance_sum_exercise: "variance_sum (map indicator exercise) = 12 / 7"
  by (simp add: variance_sum_def mean_def exercise_def indicator_def)

text \<open>
  C4. The Pearson coefficient is symmetric in its two habits: for every pair of completion
  vectors with sufficient overlap (the same window, at least the minimum number of days) the
  correlation of A with B is available and equals that of B with A; and for every vector A
  with sufficient history and nonzero variance the correlation of A with itself is 1.
\<close>

theorem correlation_symmetric_self_one:
  "(length a = length b \<and> min_overlap \<le> length a \<longrightarrow>
      (\<exists>r. habit_correlation a b = Some r) \<and> habit_correlation a b = habit_correlation b a)
   \<and> (min_overlap \<le> length a \<and> variance_sum (map indicator a) \<noteq> 0 \<longrightarrow>
      habit_correlation a a = Some 1)"
proof -
  have sym: "habit_correlation a b = habit_correlation b a"
    by (auto simp: habit_correlation_def pearson_commute [of "map indicator a"])
  have av: "length a = length b \<and> min_overlap \<le> length a \<Longrightarrow> \<exists>r. habit_correlation a b = Some r"
    by (simp add: habit_correlation_def)
  have self: "min_overlap \<le> length a \<and> variance_sum (map indicator a) \<noteq> 0 \<Longrightarrow>
      habit_correlation a a = Some 1"
    by (simp add: habit_correlation_def pearson_self)
  from sym av self show ?thesis by blast
qed

theorem correlation_symmetric_self_one_witness:
  "length exercise = length reading \<and> min_overlap \<le> length exercise
   \<and> variance_sum (map indicator exercise) \<noteq> 0
   \<and> habit_correlation exercise reading = habit_correlation reading exercise
   \<and> habit_correlation exercise reading \<noteq> None
   \<and> habit_correlation exercise exercise = Some 1"
proof -
  have l: "length exercise = length reading \<and> min_overlap \<le> length exercise"
    by (simp add: exercise_def reading_def min_overlap_def)
  have v: "variance_sum (map indicator exercise) \<noteq> 0"
    by (simp add: variance_sum_exercise)
  from correlation_symmetric_self_one [of exercise reading] l v
  show ?thesis by auto
qed

section \<open>Properties of the heatmap calendar\<close>

lemma mod_succ:
  fixes a n :: int
  assumes "0 < n"
  shows "(a + 1) mod n = (if a mod n + 1 = n then 0 else a mod n + 1)"
proof (cases "a mod n + 1 = n")
  case True
  then have "(a mod n + 1) mod n = 0" by simp
  then have "(a + 1) mod n = 0" by (simp add: mod_add_left_eq)
  with True show ?thesis by simp
next
  case False
  have "0 \<le> a mod n \<and> a mod n < n" using assms by simp
  with False have "0 \<le> a mod n + 1 \<and> a mod n + 1 < n" by linarith
  then have "(a mod n + 1) mod n = a mod n + 1" by simp
  then have "(a + 1) mod n = a mod n + 1" by (simp add: mod_add_left_eq)
  with False show ?thesis by simp
qed

lemma monday_iff: "getDay d = 1 \<longleftrightarrow> (d + 3) mod 7 = 0"
proof -
  have "0 \<le> (d + 3) mod 7" by simp
  then show ?thesis
    using mod_succ [where a = "d + 3" and n = 7] by (auto simp: getDay_def add.commute split: if_splits)
qed

lemma day_before_mod:
  fixes d :: int
  shows "(d + 3) mod 7 \<noteq> 0 \<Longrightarrow> (d - 1 + 3) mod 7 = (d + 3) mod 7 - 1"
proof -
  assume a: "(d + 3) mod 7 \<noteq> 0"
  have e: "d + 2 + 1 = d + 3" "d - 1 + 3 = d + 2" by simp_all
  from mod_succ [where a = "d + 2" and n = 7] a show ?thesis
    unfolding e by (simp split: if_splits)
qed

lemma first_monday_eq: "first_monday d = d - (d + 3) mod 7"
proof (induction d rule: first_monday.induct)
  case (1 d)
  show ?case
  proof (cases "getDay d \<noteq> 1")
    case True
    then have s: "first_monday d = first_monday (d - 1)"
      by (subst first_monday.simps) simp
    from True have "(d + 3) mod 7 \<noteq> 0" by (simp add: monday_iff)
    then have "(d - 1 + 3) mod 7 = (d + 3) mod 7 - 1"
      by (rule day_before_mod)
    then have "d - 1 - (d - 1 + 3) mod 7 = d - (d + 3) mod 7"
      by (simp only: diff_diff_eq2 diff_add_cancel)
    with "1.IH" [OF True] s show ?thesis by simp
  next
    case False
    then have s: "first_monday d = d"
      by (subst first_monday.simps) simp
    from False have "(d + 3) mod 7 = 0" by (simp add: monday_iff)
    with s show ?thesis by simp
  qed
qed

lemma first_monday_props:
  "getDay (first_monday d) = 1 \<and> first_monday d \<le> d \<and> d - 7 < first_monday d"
proof -
  have "7 * ((d + 3) div 7) + (d + 3) mod 7 = d + 3" by (rule mult_div_mod_eq)
  then have "d - (d + 3) mod 7 + 3 = 7 * ((d + 3) div 7)" by linarith
  then have "(d - (d + 3) mod 7 + 3) mod 7 = 0" by simp
  then have m: "getDay (d - (d + 3) mod 7) = 1" by (simp add: monday_iff)
  have "0 \<le> (d + 3) mod 7 \<and> (d + 3) mod 7 < 7" by simp
  with m show ?thesis by (simp add: first_monday_eq)
qed

lemma week_cells_map:
  "week_cells n tz dataMap d = map (render_cell tz dataMap) [d..d + int n - 1]"
proof (induction n arbitrary: d)
  case 0
  show ?case by simp
next
  case (Suc n)
  have "[d..d + int (Suc n) - 1] = d # [d + 1..d + 1 + int n - 1]"
    by (simp add: upto_rec1)
  with Suc.IH [of "d + 1"] show ?case by simp
qed

lemma new_Date_jan1: "year < 0 \<or> 99 < year \<Longrightarrow> new_Date year 0 1 = DayFromYear year"
  by (auto simp: new_Date_def month_start_def)

lemma new_Date_dec31: "year < 0 \<or> 99 < year \<Longrightarrow> new_Date year 11 31 = DayFromYear (year + 1) - 1"
  by (auto simp: new_Date_def month_start_def DayFromYear_next DaysInYear_def)

lemma grid_end_last: "cur < n \<Longrightarrow> n \<le> cur + 7 \<Longrightarrow> grid_end n cur = cur + 7"
proof -
  assume a: "cur < n" "n \<le> cur + 7"
  have "n - cur + 6 = 7 * 1 + (n - cur - 1)" by simp
  moreover from a have "0 \<le> n - cur - 1 \<and> n - cur - 1 < 7" by simp
  ultimately have "(n - cur + 6) div 7 = 1"
    using int_div_pos_eq [of "n - cur + 6" 7 1 "n - cur - 1"] by simp
  with a show ?thesis by (simp add: grid_end_def)
qed

lemma grid_end_step:
  assumes "cur < n"
  shows "grid_end n (cur + 7) = grid_end n cur" and "cur + 7 \<le> grid_end n cur"
proof -
  have "n - cur + 6 = (n - (cur + 7) + 6) + 7" by simp
  then have "(n - cur + 6) div 7 = ((n - (cur + 7) + 6) + 7) div 7" by simp
  also have "\<dots> = (n - (cur + 7) + 6) div 7 + 1" by (rule div_add_self2) simp
  finally have d: "(n - cur + 6) div 7 = (n - (cur + 7) + 6) div 7 + 1" .
  show "grid_end n (cur + 7) = grid_end n cur"
  proof (cases "cur + 7 < n")
    case True
    with assms d show ?thesis by (simp add: grid_end_def)
  next
    case False
    with assms have "grid_end n cur = cur + 7" by (simp add: grid_end_last)
    with False show ?thesis by (simp add: grid_end_def)
  qed
  from assms have "7 \<le> n - cur + 6" by simp
  then have "0 < (n - cur + 6) div 7" by (simp add: pos_imp_zdiv_pos_iff)
  with assms show "cur + 7 \<le> grid_end n cur" by (simp add: grid_end_def)
qed

lemma heatmap_weeks_closed:
  "endDate = DayFromYear (year + 1) - 1 \<Longrightarrow>
     heatmap_weeks tz dataMap year endDate cur wc html
       = html @ map (render_cell tz dataMap) [cur..grid_end (DayFromYear (year + 1)) cur - 1]"
proof (induction tz dataMap year endDate cur wc html rule: heatmap_weeks.induct)
  case (1 tz dataMap year endDate cur wc html)
  let ?n = "DayFromYear (year + 1)"
  have cond: "(cur \<le> endDate \<or> getFullYear cur = year) = (cur < ?n)"
    using "1.prems" YearFromDay_bounds [of cur] by (auto simp: getFullYear_def)
  have brk: "(getFullYear (cur + 7) > year) = (?n \<le> cur + 7)"
    by (simp add: getFullYear_def YearFromDay_gt)
  have week: "week_cells 7 tz dataMap cur = map (render_cell tz dataMap) [cur..cur + 6]"
  proof -
    have "cur + int 7 - 1 = cur + 6" by simp
    with week_cells_map [of 7 tz dataMap cur] show ?thesis by (simp only:)
  qed
  show ?case
  proof (cases "cur < ?n")
    case False
    then have "heatmap_weeks tz dataMap year endDate cur wc html = html"
      using cond by (subst heatmap_weeks.simps) simp
    moreover from False have "grid_end ?n cur = cur" by (simp add: grid_end_def)
    ultimately show ?thesis by simp
  next
    case True
    show ?thesis
    proof (cases "?n \<le> cur + 7 \<and> wc + 1 > 52")
      case b: True
      then have h: "heatmap_weeks tz dataMap year endDate cur wc html
          = html @ week_cells 7 tz dataMap cur"
        using cond brk True by (subst heatmap_weeks.simps) simp
      from True b have "grid_end ?n cur = cur + 7" by (simp add: grid_end_last)
      then have ge: "grid_end ?n cur - 1 = cur + 6" by simp
      show ?thesis by (simp only: h ge week)
    next
      case nb: False
      then have s: "heatmap_weeks tz dataMap year endDate cur wc html
          = heatmap_weeks tz dataMap year endDate (cur + 7) (wc + 1)
              (html @ week_cells 7 tz dataMap cur)"
        using cond brk True by (subst heatmap_weeks.simps) auto
      have c1: "cur \<le> endDate \<or> getFullYear cur = year" using cond True by simp
      have c2: "\<not> (year < getFullYear (cur + 7) \<and> 52 < wc + 1)" using brk nb by simp
      note ih = "1.IH" [OF c1 c2 "1.prems"]
      note g = grid_end_step [OF True]
      have "[cur..grid_end ?n cur - 1] = [cur..cur + 6] @ [cur + 6 + 1..grid_end ?n cur - 1]"
        using g(2) by (intro upto_split2) simp_all
      moreover have "cur + 6 + 1 = cur + 7" by simp
      ultimately
      have sp: "[cur..grid_end ?n cur - 1] = [cur..cur + 6] @ [cur + 7..grid_end ?n cur - 1]"
        by (simp only:)
      have "heatmap_weeks tz dataMap year endDate cur wc html
          = (html @ week_cells 7 tz dataMap cur)
              @ map (render_cell tz dataMap) [cur + 7..grid_end ?n (cur + 7) - 1]"
        by (simp only: s ih)
      also have "\<dots> = html @ map (render_cell tz dataMap) [cur..grid_end ?n cur - 1]"
        by (simp only: g(1) sp week map_append append_assoc)
      finally show ?thesis .
    qed
  qed
qed

lemma toISODate_west: "- 1440 < tz \<Longrightarrow> tz \<le> 0 \<Longrightarrow> toISODate tz d = d"
proof -
  assume a: "- 1440 < tz" "tz \<le> 0"
  have "d * 1440 - tz = 1440 * d + (- tz)" by simp
  moreover from a have "0 \<le> - tz \<and> - tz < 1440" by simp
  ultimately have "(d * 1440 - tz) div 1440 = d"
    using int_div_pos_eq [of "d * 1440 - tz" 1440 d "- tz"] by simp
  then show ?thesis by (simp add: toISODate_def)
qed

lemma toISODate_east: "0 < tz \<Longrightarrow> tz \<le> 1440 \<Longrightarrow> toISODate tz d = d - 1"
proof -
  assume a: "0 < tz" "tz \<le> 1440"
  have "d * 1440 - tz = 1440 * (d - 1) + (1440 - tz)" by simp
  moreover from a have "0 \<le> 1440 - tz \<and> 1440 - tz < 1440" by simp
  ultimately have "(d * 1440 - tz) div 1440 = d - 1"
    using int_div_pos_eq [of "d * 1440 - tz" 1440 "d - 1" "1440 - tz"] by simp
  then show ?thesis by (simp add: toISODate_def)
qed

lemma cell_date_render: "cell_date (render_cell tz dataMap d) = toISODate tz d"
  by (simp add: render_cell_def Let_def)

lemma cell_tooltip_render: "cell_tooltip (render_cell tz dataMap d) = dataMap (toISODate tz d)"
  by (simp add: render_cell_def Let_def)

lemma cell_level_render:
  "cell_level (render_cell tz dataMap d)
     = (case dataMap (toISODate tz d) of None \<Rightarrow> 0 | Some e \<Rightarrow> getHeatmapLevel (percentage e))"
  by (simp add: render_cell_def Let_def)

lemma heatmap_grid_cells:
  assumes "year < 0 \<or> 99 < year" and "heatmap_success r"
  shows "grid_cells (renderHeatmapCalendar tz True (Inr r) year)
     = map (render_cell tz (build_dataMap (heatmap_data r)))
         [first_monday (DayFromYear year)
          ..grid_end (DayFromYear (year + 1)) (first_monday (DayFromYear year)) - 1]"
proof -
  have e: "new_Date year 11 31 = DayFromYear (year + 1) - 1"
    using assms(1) by (rule new_Date_dec31)
  show ?thesis
    using assms(2) heatmap_weeks_closed [OF e]
    by (simp add: renderHeatmapCalendar_def Let_def new_Date_jan1 [OF assms(1)])
qed

lemma map_shift_upto: "map (\<lambda>d. d - 1) [a..b] = [a - 1..b - 1]"
proof (induction a b rule: upto.induct)
  case (1 i j)
  show ?case
  proof (cases "i \<le> j")
    case True
    then have "[i..j] = i # [i + 1..j]" by (rule upto_rec1)
    moreover from True have "[i - 1..j - 1] = (i - 1) # [i - 1 + 1..j - 1]"
      by (intro upto_rec1) simp
    ultimately show ?thesis using "1.IH" [OF True] by simp
  next
    case False
    then show ?thesis by simp
  qed
qed

text \<open>
  Where the local offset is zero or west of UTC, the label of each cell is its local date.
  Then, for every year outside 0 to 99, the dates of the cells are the consecutive days
  from the Monday on or before 1 January up to a Sunday on or after 31 December: every date
  of the year has a cell, and a date without data has a cell of level 0.
\<close>

lemma heatmap_covers_year_west_of_utc:
  assumes y: "year < 0 \<or> 99 < year" and w: "- 1440 < tz" "tz \<le> 0" and ok: "heatmap_success r"
  defines "v \<equiv> renderHeatmapCalendar tz True (Inr r) year"
    and "m \<equiv> first_monday (DayFromYear year)"
  defines "e \<equiv> grid_end (DayFromYear (year + 1)) m"
  shows "grid_dates v = [m..e - 1]"
    and "getDay m = 1 \<and> m \<le> DayFromYear year \<and> DayFromYear year - 7 < m"
    and "DayFromYear (year + 1) \<le> e \<and> (e - m) mod 7 = 0"
    and "\<forall>d. DayFromYear year \<le> d \<and> d < DayFromYear (year + 1) \<longrightarrow> d \<in> set (grid_dates v)"
    and "\<forall>c \<in> set (grid_cells v).
           cell_tooltip c = build_dataMap (heatmap_data r) (cell_date c)
           \<and> (build_dataMap (heatmap_data r) (cell_date c) = None \<longrightarrow> cell_level c = 0)"
proof -
  have cells: "grid_cells v = map (render_cell tz (build_dataMap (heatmap_data r))) [m..e - 1]"
    unfolding v_def m_def e_def using y ok by (rule heatmap_grid_cells)
  have iso: "\<And>d. toISODate tz d = d" using w by (rule toISODate_west)
  show dates: "grid_dates v = [m..e - 1]"
    by (simp add: grid_dates_def cells comp_def cell_date_render iso)
  show mon: "getDay m = 1 \<and> m \<le> DayFromYear year \<and> DayFromYear year - 7 < m"
    unfolding m_def by (rule first_monday_props)
  have lt: "DayFromYear year < DayFromYear (year + 1)"
    by (rule DayFromYear_strict_mono) simp
  with mon have ml: "m < DayFromYear (year + 1)" by simp
  then have ge: "e = m + 7 * ((DayFromYear (year + 1) - m + 6) div 7)"
    by (simp add: e_def grid_end_def)
  have "DayFromYear (year + 1) - m + 6 < 7 * ((DayFromYear (year + 1) - m + 6) div 7) + 7"
    using mult_div_mod_eq [of 7 "DayFromYear (year + 1) - m + 6"]
      pos_mod_bound [of 7 "DayFromYear (year + 1) - m + 6"] by linarith
  with ge have "DayFromYear (year + 1) \<le> e" by linarith
  moreover from ge have "(e - m) mod 7 = 0" by simp
  ultimately show en: "DayFromYear (year + 1) \<le> e \<and> (e - m) mod 7 = 0" by simp
  from mon en show "\<forall>d. DayFromYear year \<le> d \<and> d < DayFromYear (year + 1)
      \<longrightarrow> d \<in> set (grid_dates v)"
    by (simp add: dates)
  show "\<forall>c \<in> set (grid_cells v).
           cell_tooltip c = build_dataMap (heatmap_data r) (cell_date c)
           \<and> (build_dataMap (heatmap_data r) (cell_date c) = None \<longrightarrow> cell_level c = 0)"
    by (auto simp: cells cell_tooltip_render cell_date_render cell_level_render)
qed

lemma year_2023: "DayFromYear 2023 = 19358" "DayFromYear 2024 = 19723"
  by (simp_all add: DayFromYear_def)

lemma grid_2023: "first_monday 19358 = 19352" "grid_end 19723 19352 = 19723"
  by (simp_all add: first_monday_eq grid_end_def)

text \<open>
  C2. The claim: for every target year the calendar has a cell for every date of that year,
  in chronological order without gaps, starting at the first Monday on or before 1 January
  and running in whole weeks past 31 December, a date without data being a cell of level 0.

  The function steps through local days but labels each cell with \<open>toISOString\<close>, the date
  in UTC. For the year 2023 in a browser 5 hours 30 minutes east of UTC (offset 330)
  this gives the following. 1 January 2023 is day 19358, a Sunday, and 31 December 2023 is
  day 19722, a Sunday as well. The loop starts on Monday 26 December 2022 (day 19352) and
  ends after the week that closes on 31 December; each cell is labelled with the day before
  its local day, so the labels run from day 19351 (25 December 2022, a Sunday) to day 19721
  (30 December 2023), and no cell carries 31 December 2023.
\<close>

theorem heatmap_2023_east_of_utc:
  "new_Date 2023 0 1 = 19358 \<and> getDay 19358 = 0
   \<and> new_Date 2023 11 31 = 19722 \<and> getDay 19722 = 0
   \<and> grid_dates (renderHeatmapCalendar 330 True (Inr empty_year) 2023) = [19351..19721]
   \<and> 19722 \<notin> set (grid_dates (renderHeatmapCalendar 330 True (Inr empty_year) 2023))"
proof -
  have y: "(2023::int) < 0 \<or> 99 < (2023::int)" by simp
  have ok: "heatmap_success empty_year" by (simp add: empty_year_def)
  have iso: "\<And>d. toISODate 330 d = d - 1" by (rule toISODate_east) simp_all
  have "grid_dates (renderHeatmapCalendar 330 True (Inr empty_year) 2023)
      = map (\<lambda>d. d - 1) [19352..19723 - 1]"
    unfolding grid_dates_def heatmap_grid_cells [OF y ok]
    by (simp add: year_2023 grid_2023 comp_def cell_date_render iso)
  then have g: "grid_dates (renderHeatmapCalendar 330 True (Inr empty_year) 2023)
      = [19351..19721]"
    by (simp only: map_shift_upto) simp
  have a: "new_Date 2023 0 1 = 19358" using new_Date_jan1 [OF y] by (simp add: year_2023)
  have b: "new_Date 2023 11 31 = 19722" using new_Date_dec31 [OF y] by (simp add: year_2023)
  have c: "getDay 19358 = 0 \<and> getDay 19722 = 0" by (simp add: getDay_def)
  have d: "(19722::int) \<notin> set [19351..19721]" by simp
  from a b c d g show ?thesis by (simp only:) simp
qed

text \<open>The same dates, obtained by running the definitions on this input.\<close>

lemma heatmap_2023_east_of_utc_run:
  "grid_dates (renderHeatmapCalendar 330 True (Inr empty_year) 2023) = [19351..19721]"
  by code_simp


end
